theory Spec2Isabelle
  imports Complex_Main
begin

section \<open>JavaScript values and property lookup\<close>

text \<open>
  The values that reading a property of the object literal \<open>POLLING_INTERVALS\<close> can
  produce: a number, \<open>null\<close>, \<open>undefined\<close> (no such property anywhere on the
  prototype chain), or a member that every plain object inherits from
  \<open>Object.prototype\<close>, kept symbolic under its name.
\<close>

datatype jsval = Num int | Null | Undefined | Inherited string

text \<open>
  The property names of \<open>Object.prototype\<close> (ECMAScript, with Annex B). An object
  literal has \<open>Object.prototype\<close> as its prototype, and \<open>obj[key]\<close> walks the
  prototype chain when \<open>obj\<close> has no own property \<open>key\<close>.
\<close>

definition Object_prototype :: "string list" where
  "Object_prototype =
     [''constructor'', ''hasOwnProperty'', ''isPrototypeOf'', ''propertyIsEnumerable'',
      ''toLocaleString'', ''toString'', ''valueOf'', ''__proto__'',
      ''__defineGetter__'', ''__defineSetter__'', ''__lookupGetter__'', ''__lookupSetter__'']"

definition get_property :: "(string \<times> jsval) list \<Rightarrow> string \<Rightarrow> jsval" where
  "get_property obj key =
     (case map_of obj key of
        Some v \<Rightarrow> v
      | None \<Rightarrow> if key \<in> set Object_prototype then Inherited key else Undefined)"

text \<open>The operator \<open>??\<close>: the right operand when the left one is \<open>null\<close> or \<open>undefined\<close>.\<close>

definition nullish :: "jsval \<Rightarrow> jsval \<Rightarrow> jsval" where
  "nullish v d = (case v of Null \<Rightarrow> d | Undefined \<Rightarrow> d | _ \<Rightarrow> v)"


section \<open>The awaiting-deposit page (BridgeAwaitingDeposit.tsx)\<close>

subsection \<open>The polling table\<close>

definition POLLING_INTERVALS :: "(string \<times> jsval) list" where
  "POLLING_INTERVALS =
     [(''DEFAULT'', Num 15000),
      (''NEW'', Num 10000),
      (''PENDING'', Num 10000),
      (''EXCHANGE'', Num 20000),
      (''WITHDRAW'', Num 20000),
      (''DONE'', Num 30000),
      (''EXPIRED'', Null),
      (''EMERGENCY'', Null)]"

text \<open>
  Line 88: \<open>POLLING_INTERVALS[apiStatus] ?? POLLING_INTERVALS.DEFAULT\<close>. A status that
  is \<open>undefined\<close> is converted to the property key \<open>"undefined"\<close>.
\<close>

definition newInterval :: "string option \<Rightarrow> jsval" where
  "newInterval apiStatus =
     nullish
       (get_property POLLING_INTERVALS
          (case apiStatus of None \<Rightarrow> ''undefined'' | Some s \<Rightarrow> s))
       (get_property POLLING_INTERVALS ''DEFAULT'')"

subsection \<open>Data\<close>

text \<open>
  The order object of the settlement engine (\<open>data.data\<close> of a status response, and
  \<open>rawApiResponse\<close> of the order details). Both fields are optional because the page
  builds such objects by spreading a possibly absent one.
\<close>

record api_order =
  ao_id :: "string option"
  ao_status :: "string option"

text \<open>The fields of \<open>OrderDetails\<close> that the page reads.\<close>

record order_details =
  od_orderId :: string
  od_ffOrderId :: "string option"
  od_ffOrderToken :: "string option"
  od_fromCurrency :: string
  od_toCurrency :: string
  od_depositAmount :: string
  od_destinationAddress :: string
  od_depositAddress :: string
  od_currentStatus :: string
  od_rawApiResponse :: "api_order option"

text \<open>
  A row handed to \<open>insert\<close> on the table \<open>completed_bridge_transactions\<close>. The
  amount is kept as the string that \<open>parseFloat\<close> receives; \<open>client_metadata\<close> is
  reduced to its \<open>simulation\<close> flag (the rest is read from the browser).
\<close>

record transaction_row =
  ff_order_id :: string
  ff_order_token :: string
  from_currency :: string
  to_currency :: string
  amount_text :: string
  destination_address :: string
  deposit_address :: string
  row_status :: string
  raw_api_response :: "api_order option"
  simulated :: bool
  original_status :: "string option"

text \<open>
  The state of the page: the URL parameters, the React state variables, and the two
  collaborators the page writes to (the requests sent to the \<open>bridge-status\<close>
  function and the rows of the table). Toasts, console output, the debug information
  and the navigation to the completion page are left out.
\<close>

record page =
  orderId :: "string option"
  token :: string
  simulateSuccess :: bool
  manualStatusCheckAttempted :: bool
  statusCheckError :: "string option"
  pollingInterval :: jsval
  lastPollTimestamp :: int
  transactionSaved :: bool
  originalOrderDetails :: "order_details option"
  orderDetails :: "order_details option"
  bridge_status_requests :: "(string \<times> string) list"
  completed_bridge_transactions :: "transaction_row list"

subsection \<open>The status-change effect (lines 84-92)\<close>

definition status_change_effect :: "page \<Rightarrow> page" where
  "status_change_effect st =
     (case orderDetails st of
        None \<Rightarrow> st
      | Some od \<Rightarrow>
          (case od_rawApiResponse od of
             None \<Rightarrow> st
           | Some raw \<Rightarrow> st\<lparr>pollingInterval := newInterval (ao_status raw)\<rparr>))"

text \<open>The order details with the raw status replaced, as a status update leaves them.\<close>

definition with_status :: "order_details \<Rightarrow> string \<Rightarrow> order_details" where
  "with_status od s =
     od\<lparr>od_rawApiResponse :=
          Some (case od_rawApiResponse od of
                  None \<Rightarrow> \<lparr>ao_id = None, ao_status = Some s\<rparr>
                | Some raw \<Rightarrow> raw\<lparr>ao_status := Some s\<rparr>)\<rparr>"

subsection \<open>saveCompletedTransaction (lines 266-335)\<close>

text \<open>
  The function is asynchronous. It runs up to \<open>await ... insert(transactionData)\<close>
  in one step (\<open>save_begin\<close>: the guard on \<open>transactionSaved\<close> and the row), the
  table answers, and the rest runs in a later step (\<open>save_settle\<close>). The state handed
  to \<open>save_begin\<close> is the one the running closure sees.
\<close>

datatype insert_outcome = InsertOk | InsertError | InsertThrows

text \<open>\<open>a || b\<close> on strings that may be absent: \<open>b\<close> when \<open>a\<close> is absent or empty.\<close>

definition or_else :: "string option \<Rightarrow> string \<Rightarrow> string" where
  "or_else a b = (case a of None \<Rightarrow> b | Some s \<Rightarrow> if s = [] then b else s)"

definition transactionData :: "page \<Rightarrow> order_details \<Rightarrow> api_order option \<Rightarrow> bool \<Rightarrow> transaction_row" where
  "transactionData st details apiData isSimulated =
     \<lparr>ff_order_id = or_else (od_ffOrderId details) (od_orderId details),
      ff_order_token = or_else (od_ffOrderToken details) (token st),
      from_currency = od_fromCurrency details,
      to_currency = od_toCurrency details,
      amount_text = od_depositAmount details,
      destination_address = od_destinationAddress details,
      deposit_address = od_depositAddress details,
      row_status = ''completed'',
      raw_api_response = apiData,
      simulated = isSimulated,
      original_status =
        (if isSimulated
         then (case originalOrderDetails st of
                 None \<Rightarrow> None
               | Some orig \<Rightarrow> (case od_rawApiResponse orig of None \<Rightarrow> None | Some raw \<Rightarrow> ao_status raw))
         else None)\<rparr>"

definition save_begin :: "page \<Rightarrow> order_details option \<Rightarrow> api_order option \<Rightarrow> bool \<Rightarrow> transaction_row option" where
  "save_begin st details apiData isSimulated =
     (case details of
        None \<Rightarrow> None
      | Some d \<Rightarrow> if transactionSaved st then None else Some (transactionData st d apiData isSimulated))"

text \<open>
  The table's answer and the code after the \<open>await\<close>: the row is stored exactly when
  the insert succeeds, and only then is \<open>setTransactionSaved(true)\<close> reached.
\<close>

definition save_settle :: "insert_outcome \<Rightarrow> transaction_row \<Rightarrow> page \<Rightarrow> page" where
  "save_settle outcome row st =
     (case outcome of
        InsertOk \<Rightarrow>
          st\<lparr>completed_bridge_transactions := completed_bridge_transactions st @ [row],
             transactionSaved := True\<rparr>
      | InsertError \<Rightarrow> st
      | InsertThrows \<Rightarrow> st)"

text \<open>One invocation that runs to its end before anything else happens.\<close>

definition saveCompletedTransaction ::
  "order_details option \<Rightarrow> api_order option \<Rightarrow> bool \<Rightarrow> insert_outcome \<Rightarrow> page \<Rightarrow> page" where
  "saveCompletedTransaction details apiData isSimulated outcome st =
     (case save_begin st details apiData isSimulated of
        None \<Rightarrow> st
      | Some row \<Rightarrow> save_settle outcome row st)"



text \<open>The effect that saves a simulated completion (lines 251-263).\<close>

definition simulated_save_effect :: "insert_outcome \<Rightarrow> page \<Rightarrow> page" where
  "simulated_save_effect outcome st =
     (case orderDetails st of
        None \<Rightarrow> st
      | Some od \<Rightarrow>
          if simulateSuccess st \<and> od_currentStatus od = ''completed''
             \<and> (case od_rawApiResponse od of None \<Rightarrow> False | Some raw \<Rightarrow> ao_status raw = Some ''DONE'')
             \<and> \<not> transactionSaved st
          then saveCompletedTransaction (Some od) (od_rawApiResponse od) True outcome st
          else st)"

text \<open>The effect that applies the simulation switch (lines 51-80).\<close>

definition completed_details :: "order_details \<Rightarrow> order_details" where
  "completed_details od = (with_status od ''DONE'')\<lparr>od_currentStatus := ''completed''\<rparr>"

definition simulate_effect :: "page \<Rightarrow> page" where
  "simulate_effect st =
     (case originalOrderDetails st of
        None \<Rightarrow> st
      | Some orig \<Rightarrow>
          if simulateSuccess st then st\<lparr>orderDetails := Some (completed_details orig)\<rparr>
          else st\<lparr>orderDetails := Some orig\<rparr>)"

subsection \<open>checkOrderStatus (lines 106-181)\<close>


text \<open>What \<open>supabase.functions.invoke\<close> resolves to.\<close>

record status_response =
  sr_code :: int
  sr_data :: "api_order option"
  sr_msg :: "string option"

datatype invoke_result = InvokeError string | InvokeData status_response

text \<open>
  The part after the \<open>await\<close> (lines 134-176). \<open>outcome\<close> is the table's answer to
  the insert that a \<open>DONE\<close> status may start.
\<close>

definition checkOrderStatus_response :: "invoke_result \<Rightarrow> insert_outcome \<Rightarrow> page \<Rightarrow> page" where
  "checkOrderStatus_response res outcome st =
     (case res of
        InvokeError m \<Rightarrow> st\<lparr>statusCheckError := Some (''Error: '' @ m)\<rparr>
      | InvokeData r \<Rightarrow>
          (case (if sr_code r = 0 then sr_data r else None) of
             Some d \<Rightarrow>
               if ao_status d = Some ''DONE'' then
                 saveCompletedTransaction (originalOrderDetails st) (Some d) False outcome
                   (case originalOrderDetails st of
                      None \<Rightarrow> st
                    | Some orig \<Rightarrow> st\<lparr>orderDetails := Some (completed_details orig)\<rparr>)
               else st
           | None \<Rightarrow>
               st\<lparr>statusCheckError :=
                    Some (''API Error: '' @ or_else (sr_msg r) ''Unknown error'')\<rparr>))"

section \<open>The bridge context (BridgeProvider)\<close>

subsection \<open>Numbers\<close>

text \<open>
  A JavaScript number is NaN, an infinity, or a finite double, which is a rational.
  \<open><\<close> and \<open><=\<close> are false as soon as one side is NaN. \<open>parseFloat\<close> is an
  argument \<open>pf\<close> of the functions that call it.
\<close>

datatype jsnum = NaN | NegInf | Fin rat | PosInf

fun num_less :: "jsnum \<Rightarrow> jsnum \<Rightarrow> bool" where
  "num_less NaN _ = False"
| "num_less _ NaN = False"
| "num_less (Fin a) (Fin b) = (a < b)"
| "num_less NegInf NegInf = False"
| "num_less NegInf _ = True"
| "num_less _ NegInf = False"
| "num_less PosInf _ = False"
| "num_less _ PosInf = True"

definition num_le :: "jsnum \<Rightarrow> jsnum \<Rightarrow> bool" where
  "num_le a b = (a \<noteq> NaN \<and> b \<noteq> NaN \<and> \<not> num_less b a)"

subsection \<open>State\<close>

datatype order_type = Fixed | Float

text \<open>The fields of \<open>PriceResponse\<close> that the context reads.\<close>

record price_response =
  pr_expiresAt :: jsnum
  pr_from_min :: string
  pr_from_max :: string
  pr_to_amount :: string
  pr_rate :: "string option"

text \<open>
  The two error texts of the validator,
  \<open>Minimum amount is ${minAmount} ${fromCurrency}\<close> and
  \<open>Maximum amount is ${maxAmount} ${fromCurrency}\<close>, with their two holes.
\<close>

datatype amount_error = MinimumAmountIs jsnum string | MaximumAmountIs jsnum string

text \<open>
  What \<open>createOrder\<close> answers, and what is written to local storage (without the
  tag and the alternative address; the expiration before its conversion to a date).
\<close>

record created_order =
  co_id :: string
  co_token :: string
  co_status :: string
  co_address :: "string option"
  co_expiration :: "int option"

record order_result =
  or_code :: "int option"
  or_msg :: "string option"
  or_data :: "created_order option"

record stored_transaction =
  st_id :: string
  st_orderToken :: string
  st_fromCurrency :: string
  st_toCurrency :: string
  st_amount :: string
  st_destinationAddress :: string
  st_status :: string
  st_depositAddress :: "string option"
  st_type :: order_type
  st_receiveAmount :: string
  st_expiration :: "int option"

text \<open>The calls the context makes to its collaborators, in the order it makes them.\<close>

datatype call =
    CalculatePrice string string string order_type
  | CreateOrder string string string string order_type string
  | LocalStorageSet stored_transaction
  | StartStatusChecking string

text \<open>
  The React state of the provider, its refs, the interval timers that are running in
  the browser (\<open>next_timer\<close> is the handle that \<open>setInterval\<close> returns next), and
  the calls made so far.
\<close>

record bridge =
  fromCurrency :: string
  toCurrency :: string
  amount :: string
  estimatedReceiveAmount :: string
  destinationAddress :: string
  orderType :: order_type
  isCalculating :: bool
  timeRemaining :: "string option"
  lastPriceData :: "price_response option"
  amountError :: "amount_error option"
  timeRemainingTimerRef :: "nat option"
  quoteExpiryTimeRef :: "int option"
  lastPriceCheckTimeRef :: int
  intervals :: "nat list"
  next_timer :: nat
  calls :: "call list"

subsection \<open>The countdown (lines 179-235)\<close>

definition QUOTE_VALIDITY_MS :: int where
  "QUOTE_VALIDITY_MS = 120000"

text \<open>A natural number in decimal, as a template literal prints it.\<close>

definition digit :: "nat \<Rightarrow> char" where
  "digit d =
     (if d = 0 then CHR ''0'' else if d = 1 then CHR ''1'' else if d = 2 then CHR ''2''
      else if d = 3 then CHR ''3'' else if d = 4 then CHR ''4'' else if d = 5 then CHR ''5''
      else if d = 6 then CHR ''6'' else if d = 7 then CHR ''7'' else if d = 8 then CHR ''8''
      else CHR ''9'')"

fun decimal :: "nat \<Rightarrow> string" where
  "decimal n = (if n < 10 then [digit n] else decimal (n div 10) @ [digit (n mod 10)])"

text \<open>\<open>padStart(2, "0")\<close>.\<close>

definition padStart2 :: "string \<Rightarrow> string" where
  "padStart2 s = replicate (2 - length s) CHR ''0'' @ s"

text \<open>Lines 208-212, for a positive number of milliseconds.\<close>

definition format_remaining :: "int \<Rightarrow> string" where
  "format_remaining timeLeft =
     decimal (nat (timeLeft div 1000)) @ ''.'' @ padStart2 (decimal (nat (timeLeft mod 1000 div 10)))"

text \<open>\<open>clearInterval\<close> on the timer the ref holds, and the ref set to \<open>null\<close>.\<close>

definition clear_countdown :: "bridge \<Rightarrow> bridge" where
  "clear_countdown s =
     (case timeRemainingTimerRef s of
        None \<Rightarrow> s
      | Some h \<Rightarrow> s\<lparr>intervals := removeAll h (intervals s), timeRemainingTimerRef := None\<rparr>)"

text \<open>\<open>updateTimer\<close> (lines 192-213); \<open>now\<close> is the value of \<open>Date.now()\<close>.\<close>

definition updateTimer :: "int \<Rightarrow> bridge \<Rightarrow> bridge" where
  "updateTimer now s =
     (case quoteExpiryTimeRef s of
        None \<Rightarrow> s
      | Some expiry \<Rightarrow>
          if expiry = 0 then s
          else
            let timeLeft = max 0 (expiry - now) in
            if timeLeft \<le> 0 then clear_countdown (s\<lparr>timeRemaining := None\<rparr>)
            else s\<lparr>timeRemaining := Some (format_remaining timeLeft)\<rparr>)"

text \<open>
  The effect that starts the countdown. \<open>t0\<close> is \<open>Date.now()\<close> at line 189 and
  \<open>t1\<close> is \<open>Date.now()\<close> in the initial update of line 216.
\<close>

definition countdown_effect :: "int \<Rightarrow> int \<Rightarrow> bridge \<Rightarrow> bridge" where
  "countdown_effect t0 t1 s =
     (let s1 = clear_countdown s in
      if estimatedReceiveAmount s \<noteq> [] \<and> \<not> isCalculating s then
        let s2 = updateTimer t1 (s1\<lparr>quoteExpiryTimeRef := Some (t0 + QUOTE_VALIDITY_MS)\<rparr>) in
        s2\<lparr>timeRemainingTimerRef := Some (next_timer s2),
           intervals := intervals s2 @ [next_timer s2],
           next_timer := Suc (next_timer s2)\<rparr>
      else s1\<lparr>timeRemaining := None\<rparr>)"

subsection \<open>validateAmount (lines 240-267)\<close>

text \<open>The value handed to \<open>setAmountError\<close>, and the value returned.\<close>

definition validateAmount :: "(string \<Rightarrow> jsnum) \<Rightarrow> bridge \<Rightarrow> amount_error option \<times> bool" where
  "validateAmount pf c =
     (case lastPriceData c of
        None \<Rightarrow> (None, True)
      | Some q \<Rightarrow>
          if amount c = [] then (None, True)
          else if pf (amount c) = NaN then (None, True)
          else if num_less (pf (amount c)) (pf (pr_from_min q)) then
            (Some (MinimumAmountIs (pf (pr_from_min q)) (fromCurrency c)), False)
          else if num_less (pf (pr_from_max q)) (pf (amount c)) then
            (Some (MaximumAmountIs (pf (pr_from_max q)) (fromCurrency c)), False)
          else (None, True))"

subsection \<open>calculateReceiveAmount (lines 272-328)\<close>

text \<open>
  A callback reads the state of the render that created it (\<open>c\<close>) and its state
  setters change the state that the next render sees (\<open>s\<close>).
\<close>

datatype price_outcome = PriceReturns "price_response option" | PriceThrows

definition calculateReceiveAmount ::
  "(string \<Rightarrow> jsnum) \<Rightarrow> int \<Rightarrow> price_outcome \<Rightarrow> bridge \<Rightarrow> bridge \<Rightarrow> bridge" where
  "calculateReceiveAmount pf now outcome c s =
     (if fromCurrency c = [] \<or> toCurrency c = [] \<or> amount c = []
         \<or> num_le (pf (amount c)) (Fin 0) then
        s\<lparr>estimatedReceiveAmount := [], lastPriceData := None\<rparr>
      else
        let s1 = s\<lparr>calls := calls s @
                   [CalculatePrice (fromCurrency c) (toCurrency c) (amount c) (orderType c)]\<rparr>
        in
        (case outcome of
           PriceReturns None \<Rightarrow>
             s1\<lparr>estimatedReceiveAmount := ''0'', lastPriceData := None, isCalculating := False\<rparr>
         | PriceReturns (Some data) \<Rightarrow>
             s1\<lparr>estimatedReceiveAmount := pr_to_amount data, lastPriceData := Some data,
                amountError := fst (validateAmount pf c), lastPriceCheckTimeRef := now,
                isCalculating := False\<rparr>
         | PriceThrows \<Rightarrow>
             s1\<lparr>estimatedReceiveAmount := ''0'', lastPriceData := None, isCalculating := False\<rparr>))"

subsection \<open>createBridgeTransaction (lines 378-505)\<close>

text \<open>
  The errors thrown inside the \<open>try\<close> block, each standing for its message:
  "Source currency is required", "Destination currency is required", "Valid amount is
  required", "Destination address is required", the amount error of the render or
  "Invalid amount", "Exchange rate has expired. Please try again.", "Failed to create
  order", and the message of an error thrown by \<open>createOrder\<close>.
\<close>

datatype failure =
    SourceCurrencyRequired
  | DestinationCurrencyRequired
  | ValidAmountRequired
  | DestinationAddressRequired
  | AmountRejected "amount_error option"
  | ExchangeRateExpired
  | FailedToCreateOrder
  | CollaboratorFailed string

text \<open>
  \<open>validateBridgeTransaction\<close>: the error it throws, if any, and the state after
  the call of \<open>validateAmount\<close> it may have made.
\<close>

definition validateBridgeTransaction ::
  "(string \<Rightarrow> jsnum) \<Rightarrow> bridge \<Rightarrow> bridge \<Rightarrow> failure option \<times> bridge" where
  "validateBridgeTransaction pf c s =
     (if fromCurrency c = [] then (Some SourceCurrencyRequired, s)
      else if toCurrency c = [] then (Some DestinationCurrencyRequired, s)
      else if amount c = [] \<or> num_le (pf (amount c)) (Fin 0) then (Some ValidAmountRequired, s)
      else if destinationAddress c = [] then (Some DestinationAddressRequired, s)
      else if \<not> snd (validateAmount pf c) then
        (Some (AmountRejected (amountError c)), s\<lparr>amountError := fst (validateAmount pf c)\<rparr>)
      else (None, s\<lparr>amountError := fst (validateAmount pf c)\<rparr>))"

text \<open>
  What \<open>createOrder\<close> does: it returns a result (possibly none), or throws an object
  with a \<open>code\<close>, or throws an error with a message.
\<close>

datatype order_outcome =
    OrderReturns "order_result option"
  | OrderThrowsCoded order_result
  | OrderThrows string

text \<open>The value returned: a result passed on as it is, or the code-500 object.\<close>

datatype tx_result = Returned order_result | Code500 failure

definition transaction_blob :: "bridge \<Rightarrow> created_order \<Rightarrow> stored_transaction" where
  "transaction_blob c d =
     \<lparr>st_id = co_id d, st_orderToken = co_token d, st_fromCurrency = fromCurrency c,
      st_toCurrency = toCurrency c, st_amount = amount c,
      st_destinationAddress = destinationAddress c, st_status = co_status d,
      st_depositAddress = co_address d, st_type = orderType c,
      st_receiveAmount = estimatedReceiveAmount c,
      st_expiration = (if co_expiration d = Some 0 then None else co_expiration d)\<rparr>"

text \<open>Lines 412-484, once the rate has been found valid: \<open>q\<close> is \<open>lastPriceData\<close>.\<close>

definition submit_order :: "order_outcome \<Rightarrow> price_response \<Rightarrow> bridge \<Rightarrow> bridge \<Rightarrow> tx_result \<times> bridge" where
  "submit_order outcome q c s =
     (let s1 = s\<lparr>calls := calls s @
                  [CreateOrder (fromCurrency c) (toCurrency c) (amount c) (destinationAddress c)
                     (orderType c) (or_else (pr_rate q) [])]\<rparr>
      in
      case outcome of
        OrderThrowsCoded e \<Rightarrow>
          (case or_code e of
             None \<Rightarrow> (Code500 (CollaboratorFailed (or_else (or_msg e) ''Failed to create bridge transaction'')), s1)
           | Some n \<Rightarrow>
               if n = 0 then (Code500 (CollaboratorFailed (or_else (or_msg e) ''Failed to create bridge transaction'')), s1)
               else (Returned e, s1))
      | OrderThrows m \<Rightarrow> (Code500 (CollaboratorFailed (or_else (Some m) ''Failed to create bridge transaction'')), s1)
      | OrderReturns None \<Rightarrow> (Code500 FailedToCreateOrder, s1)
      | OrderReturns (Some r) \<Rightarrow>
          (case (or_code r, or_data r) of
             (Some n, Some d) \<Rightarrow>
               if n = 0 then
                 (Returned r,
                  s1\<lparr>calls := calls s1 @ [LocalStorageSet (transaction_blob c d), StartStatusChecking (co_id d)]\<rparr>)
               else if or_else (or_msg r) [] \<noteq> [] then (Returned r, s1)
               else (Code500 FailedToCreateOrder, s1)
           | (Some n, None) \<Rightarrow>
               if n \<noteq> 0 \<and> or_else (or_msg r) [] \<noteq> [] then (Returned r, s1)
               else (Code500 FailedToCreateOrder, s1)
           | (None, _) \<Rightarrow> (Code500 FailedToCreateOrder, s1)))"

text \<open>
  \<open>createBridgeTransaction\<close>. \<open>now_ms\<close> is \<open>new Date().getTime()\<close> at line 400;
  the rate's expiry is compared with it in seconds. \<open>later_ms\<close> is \<open>Date.now()\<close>
  when the recalculation records its time.
\<close>

definition rate_stale :: "int \<Rightarrow> bridge \<Rightarrow> bool" where
  "rate_stale now_ms c =
     (case lastPriceData c of
        None \<Rightarrow> True
      | Some q \<Rightarrow> num_less (pr_expiresAt q) (Fin (of_int now_ms / 1000)))"

definition createBridgeTransaction ::
  "(string \<Rightarrow> jsnum) \<Rightarrow> int \<Rightarrow> int \<Rightarrow> price_outcome \<Rightarrow> order_outcome \<Rightarrow> bridge \<Rightarrow> tx_result \<times> bridge" where
  "createBridgeTransaction pf now_ms later_ms price order c =
     (case validateBridgeTransaction pf c c of
        (Some e, s) \<Rightarrow> (Code500 e, s)
      | (None, s) \<Rightarrow>
          (case (if rate_stale now_ms c then None else lastPriceData c) of
             None \<Rightarrow> (Code500 ExchangeRateExpired, calculateReceiveAmount pf later_ms price c s)
           | Some q \<Rightarrow> submit_order order q c s))"

section \<open>The status renderer (BridgeStatusRenderer.tsx)\<close>

text \<open>
  The props the reconciliation reads (\<open>checkDbForCompletedTransaction\<close> is true when
  the function is provided), the component's state, its ref, and the order ids it has
  asked the database about.
\<close>

record renderer_props =
  initialLoading :: bool
  rp_error :: "string option"
  initialOrderDetails :: "order_details option"
  checkDbForCompletedTransaction :: bool

record renderer =
  r_orderDetails :: "order_details option"
  checkingDbForExpiredOrder :: bool
  r_loading :: bool
  stateStabilized :: bool
  hasCheckedExpiredOrderRef :: "string option"
  db_checks :: "string list"

text \<open>
  Lines 162-173: a render returns early while loading or checking, on an error, and
  without order details. \<open>handleOrderDetailsUpdate\<close> is declared by \<open>const\<close> below
  these returns (line 175), so only a render that gets past them initialises it for
  the closures that the render created.
\<close>

definition reaches_handlers :: "renderer_props \<Rightarrow> renderer \<Rightarrow> bool" where
  "reaches_handlers p st =
     (\<not> (r_loading st \<or> checkingDbForExpiredOrder st) \<and> rp_error p = None
      \<and> r_orderDetails st \<noteq> None)"

definition isExpiredOrder :: "order_details \<Rightarrow> bool" where
  "isExpiredOrder d =
     (od_currentStatus d = ''expired''
      \<or> (case od_rawApiResponse d of None \<Rightarrow> False | Some raw \<Rightarrow> ao_status raw = Some ''EXPIRED''))"

text \<open>
  A database check that has been started: the order details it was started for, and
  whether \<open>handleOrderDetailsUpdate\<close> is initialised in the scope of its closure.
\<close>

record pending_check =
  pc_details :: order_details
  pc_handler_defined :: bool

text \<open>
  The effect of lines 95-159 up to the \<open>await\<close>: the state it leaves and the check
  it has started, if any.
\<close>

definition expired_order_effect :: "renderer_props \<Rightarrow> renderer \<Rightarrow> renderer \<times> pending_check option" where
  "expired_order_effect p st =
     (case initialOrderDetails p of
        None \<Rightarrow> (st, None)
      | Some d \<Rightarrow>
          if isExpiredOrder d \<and> \<not> checkingDbForExpiredOrder st
             \<and> hasCheckedExpiredOrderRef st \<noteq> Some (od_orderId d)
             \<and> checkDbForCompletedTransaction p
          then
            let st1 = st\<lparr>stateStabilized := False, checkingDbForExpiredOrder := True,
                        hasCheckedExpiredOrderRef := Some (od_orderId d)\<rparr>
            in
            if od_orderId d \<noteq> [] then
              (st1\<lparr>db_checks := db_checks st1 @ [od_orderId d]\<rparr>,
               Some \<lparr>pc_details = d, pc_handler_defined = reaches_handlers p st\<rparr>)
            else (st1, None)
          else (st, None))"

text \<open>
  What the database answers: a row (with its \<open>raw_api_response\<close>, if it has one),
  nothing, or an exception.
\<close>

datatype db_answer = DbRow "api_order option" | DbNothing | DbThrows

definition reset_flags :: "renderer \<Rightarrow> renderer" where
  "reset_flags st =
     st\<lparr>checkingDbForExpiredOrder := False, r_loading := False, stateStabilized := True\<rparr>"

definition updatedDetails :: "order_details \<Rightarrow> api_order option \<Rightarrow> order_details" where
  "updatedDetails d raw =
     d\<lparr>od_currentStatus := ''completed'',
       od_rawApiResponse := (case raw of None \<Rightarrow> od_rawApiResponse d | Some r \<Rightarrow> Some r)\<rparr>"

text \<open>
  Lines 120-153, once the answer has arrived and, for a row or for nothing, the 300 ms
  delay has passed. With a row, the delayed callback first calls
  \<open>handleOrderDetailsUpdate\<close>; where that is not initialised the call throws and the
  rest of the callback does not run.
\<close>

definition db_check_settled :: "pending_check \<Rightarrow> db_answer \<Rightarrow> renderer \<Rightarrow> renderer" where
  "db_check_settled pc answer st =
     (case answer of
        DbRow raw \<Rightarrow>
          if pc_handler_defined pc
          then reset_flags (st\<lparr>r_orderDetails := Some (updatedDetails (pc_details pc) raw)\<rparr>)
          else st
      | DbNothing \<Rightarrow> reset_flags st
      | DbThrows \<Rightarrow> reset_flags st)"



subsection \<open>A concrete form\<close>

text \<open>\<open>parseFloat\<close> on the few strings that the instances below use.\<close>

definition parse_sample :: "string \<Rightarrow> jsnum" where
  "parse_sample s =
     (case map_of [(''5'', Fin 5), (''7'', Fin 7), (''10'', Fin 10), (''11'', Fin 11),
                   (''100'', Fin 100), (''500'', Fin 500)] s of
        Some v \<Rightarrow> v
      | None \<Rightarrow> NaN)"

definition quote_10_100 :: price_response where
  "quote_10_100 =
     \<lparr>pr_expiresAt = Fin 2000, pr_from_min = ''10'', pr_from_max = ''100'',
      pr_to_amount = ''0.0004'', pr_rate = Some ''0.00004''\<rparr>"

definition form :: bridge where
  "form =
     \<lparr>fromCurrency = ''USDT'', toCurrency = ''BTC'', amount = ''11'',
      estimatedReceiveAmount = ''0.0004'', destinationAddress = ''addr1'', orderType = Fixed,
      isCalculating = False, timeRemaining = None, lastPriceData = Some quote_10_100,
      amountError = None, timeRemainingTimerRef = Some 3, quoteExpiryTimeRef = None,
      lastPriceCheckTimeRef = 0, intervals = [3], next_timer = 4, calls = []\<rparr>"

subsection \<open>A concrete page\<close>

definition order_Y :: order_details where
  "order_Y =
     \<lparr>od_orderId = ''Y'', od_ffOrderId = None, od_ffOrderToken = None,
      od_fromCurrency = ''USDT'', od_toCurrency = ''BTC'', od_depositAmount = ''11'',
      od_destinationAddress = ''addr1'', od_depositAddress = ''dep1'',
      od_currentStatus = ''pending'',
      od_rawApiResponse = Some \<lparr>ao_id = Some ''Y'', ao_status = Some ''NEW''\<rparr>\<rparr>"

definition page_Y :: page where
  "page_Y =
     \<lparr>orderId = Some ''Y'', token = ''tok'', simulateSuccess = False,
      manualStatusCheckAttempted = False, statusCheckError = None,
      pollingInterval = Num 10000, lastPollTimestamp = 0, transactionSaved = False,
      originalOrderDetails = Some order_Y, orderDetails = Some order_Y,
      bridge_status_requests = [], completed_bridge_transactions = []\<rparr>"

definition done_X :: api_order where
  "done_X = \<lparr>ao_id = Some ''X'', ao_status = Some ''DONE''\<rparr>"

definition done_Y :: api_order where
  "done_Y = \<lparr>ao_id = Some ''Y'', ao_status = Some ''DONE''\<rparr>"

subsection \<open>A concrete renderer\<close>




section \<open>Theorems\<close>

subsection \<open>The polling table\<close>

lemma newInterval_listed:
  "newInterval (Some ''NEW'') = Num 10000"
  "newInterval (Some ''PENDING'') = Num 10000"
  "newInterval (Some ''EXCHANGE'') = Num 20000"
  "newInterval (Some ''WITHDRAW'') = Num 20000"
  "newInterval (Some ''DONE'') = Num 30000"
  by (simp_all add: newInterval_def get_property_def POLLING_INTERVALS_def nullish_def)

lemma status_change_effect_interval:
  "pollingInterval (status_change_effect (st\<lparr>orderDetails := Some (with_status od s)\<rparr>))
     = newInterval (Some s)"
  by (simp add: status_change_effect_def with_status_def split: option.split)

text \<open>
  C2 (the code departs from the claim). After a status update to \<open>EXPIRED\<close> or to
  \<open>EMERGENCY\<close> the effect stores 15000 and not \<open>null\<close>: the table holds \<open>null\<close> for
  both, and \<open>??\<close> replaces \<open>null\<close> by the default. For the other five statuses the
  interval is the one the claim gives.
\<close>

theorem polling_interval_expired_emergency:
  "pollingInterval (status_change_effect (st\<lparr>orderDetails := Some (with_status od ''EXPIRED'')\<rparr>))
     = Num 15000
   \<and> pollingInterval (status_change_effect (st\<lparr>orderDetails := Some (with_status od ''EMERGENCY'')\<rparr>))
     = Num 15000
   \<and> get_property POLLING_INTERVALS ''EXPIRED'' = Null
   \<and> get_property POLLING_INTERVALS ''EMERGENCY'' = Null"
  by (simp add: status_change_effect_interval)
     (simp add: newInterval_def get_property_def POLLING_INTERVALS_def nullish_def)

text \<open>
  C10 (the code departs from the claim). \<open>toString\<close> is not a key of the table, yet the
  interval selected for it is not 15000: the lookup finds the member inherited from
  \<open>Object.prototype\<close>, which is neither \<open>null\<close> nor \<open>undefined\<close>, so \<open>??\<close> keeps it.
\<close>

theorem polling_interval_inherited_key:
  "newInterval (Some ''toString'') = Inherited ''toString''
   \<and> newInterval (Some ''toString'') \<noteq> Num 15000
   \<and> map_of POLLING_INTERVALS ''toString'' = None"
  by (simp add: newInterval_def get_property_def POLLING_INTERVALS_def nullish_def
        Object_prototype_def)


subsection \<open>The completion recorder\<close>




lemma save_failed: "outcome \<noteq> InsertOk \<Longrightarrow> saveCompletedTransaction details apiData sim outcome st = st"
  by (cases outcome) (simp_all add: saveCompletedTransaction_def save_settle_def split: option.split)

lemma save_ok:
  "\<not> transactionSaved st \<Longrightarrow>
   saveCompletedTransaction (Some d) apiData sim InsertOk st =
     st\<lparr>completed_bridge_transactions :=
          completed_bridge_transactions st @ [transactionData st d apiData sim],
        transactionSaved := True\<rparr>"
  by (simp add: saveCompletedTransaction_def save_begin_def save_settle_def)


lemma page_Y_fields:
  "\<not> transactionSaved page_Y"
  "completed_bridge_transactions page_Y = []"
  "originalOrderDetails page_Y = Some order_Y"
  "orderDetails page_Y = Some order_Y"
  "orderId page_Y = Some ''Y''"
  "token page_Y = ''tok''"
  by (simp_all add: page_Y_def)

text \<open>
  Two invocations that both pass the guard before either insert has been answered
  write two rows: the flag is read before the \<open>await\<close> and set after it.
\<close>

lemma overlapping_saves_write_twice:
  assumes "save_begin st (Some d) a1 sim1 = Some row1"
      and "save_begin st (Some d) a2 sim2 = Some row2"
  shows "completed_bridge_transactions (save_settle InsertOk row2 (save_settle InsertOk row1 st))
           = completed_bridge_transactions st @ [row1, row2]"
  by (simp add: save_settle_def)




lemma transactionData_orderDetails:
  "transactionData (st\<lparr>orderDetails := x\<rparr>) d a s = transactionData st d a s"
  by (simp add: transactionData_def)

text \<open>
  C9. A save whose insert is answered with an error, or throws, leaves the flag clear
  and the table as it was. So the next save of the same order, and likewise the next
  status response that reports DONE, writes the record and sets the flag once its
  insert is accepted. And whenever a save sets the flag, its insert was accepted and
  its row is in the table.
\<close>

theorem failed_save_keeps_flag_clear:
  assumes "save_begin st details apiData sim = Some row"
      and "outcome = InsertError \<or> outcome = InsertThrows"
  shows "\<not> transactionSaved (saveCompletedTransaction details apiData sim outcome st)
       \<and> completed_bridge_transactions (saveCompletedTransaction details apiData sim outcome st)
           = completed_bridge_transactions st
       \<and> saveCompletedTransaction (Some d') apiData' sim' InsertOk
            (saveCompletedTransaction details apiData sim outcome st)
           = st\<lparr>completed_bridge_transactions :=
                  completed_bridge_transactions st @ [transactionData st d' apiData' sim'],
                transactionSaved := True\<rparr>
       \<and> (sr_code r = 0 \<and> sr_data r = Some dd \<and> ao_status dd = Some ''DONE''
              \<and> originalOrderDetails st = Some orig \<longrightarrow>
            transactionSaved
              (checkOrderStatus_response (InvokeData r) InsertOk
                 (saveCompletedTransaction details apiData sim outcome st))
            \<and> completed_bridge_transactions
                (checkOrderStatus_response (InvokeData r) InsertOk
                   (saveCompletedTransaction details apiData sim outcome st))
               = completed_bridge_transactions st @ [transactionData st orig (Some dd) False])
       \<and> (\<forall>oc ds a s. transactionSaved (saveCompletedTransaction ds a s oc st) \<longrightarrow>
             oc = InsertOk
             \<and> (\<exists>d. ds = Some d
                  \<and> completed_bridge_transactions (saveCompletedTransaction ds a s oc st)
                      = completed_bridge_transactions st @ [transactionData st d a s]))"
proof -
  have clear: "\<not> transactionSaved st"
    using assms(1) by (auto simp: save_begin_def split: option.splits if_splits)
  have same: "saveCompletedTransaction details apiData sim outcome st = st"
    using assms(2) by (auto simp: save_failed)
  have only: "oc = InsertOk
      \<and> (\<exists>d. ds = Some d
            \<and> completed_bridge_transactions (saveCompletedTransaction ds a s oc st)
                = completed_bridge_transactions st @ [transactionData st d a s])"
    if "transactionSaved (saveCompletedTransaction ds a s oc st)" for oc ds a s
    using that clear
    by (cases oc; cases ds)
       (auto simp: saveCompletedTransaction_def save_begin_def save_settle_def)
  have poll: "transactionSaved (checkOrderStatus_response (InvokeData r) InsertOk st)
      \<and> completed_bridge_transactions (checkOrderStatus_response (InvokeData r) InsertOk st)
          = completed_bridge_transactions st @ [transactionData st orig (Some dd) False]"
    if "sr_code r = 0" and "sr_data r = Some dd" and "ao_status dd = Some ''DONE''"
      and "originalOrderDetails st = Some orig"
    using that clear
    by (simp add: checkOrderStatus_response_def save_ok transactionData_orderDetails)
  show ?thesis
    using clear only poll by (simp add: same save_ok)
qed

theorem failed_save_keeps_flag_clear_witness:
  "\<not> transactionSaved (saveCompletedTransaction (Some order_Y) (Some done_Y) False InsertError page_Y)
   \<and> saveCompletedTransaction (Some order_Y) (Some done_Y) False InsertOk
        (saveCompletedTransaction (Some order_Y) (Some done_Y) False InsertError page_Y)
       = page_Y\<lparr>completed_bridge_transactions := [transactionData page_Y order_Y (Some done_Y) False],
               transactionSaved := True\<rparr>
   \<and> completed_bridge_transactions
        (checkOrderStatus_response
           (InvokeData \<lparr>sr_code = 0, sr_data = Some done_Y, sr_msg = None\<rparr>) InsertOk
           (saveCompletedTransaction (Some order_Y) (Some done_Y) False InsertError page_Y))
       = [transactionData page_Y order_Y (Some done_Y) False]"
proof -
  have a: "save_begin page_Y (Some order_Y) (Some done_Y) False
             = Some (transactionData page_Y order_Y (Some done_Y) False)"
    by (simp add: save_begin_def page_Y_def)
  have b: "InsertError = InsertError \<or> InsertError = InsertThrows"
    by simp
  have c: "ao_status done_Y = Some ''DONE''"
    by (simp add: done_Y_def)
  note w = failed_save_keeps_flag_clear [OF a b, where d' = order_Y and apiData' = "Some done_Y"
      and sim' = False and r = "\<lparr>sr_code = 0, sr_data = Some done_Y, sr_msg = None\<rparr>"
      and dd = done_Y and orig = order_Y]
  show ?thesis
    using w c by (simp add: page_Y_fields)
qed


subsection \<open>The status poller\<close>




lemma save_keeps_orderDetails:
  "orderDetails (saveCompletedTransaction details apiData sim outcome st) = orderDetails st"
  by (cases outcome)
     (simp_all add: saveCompletedTransaction_def save_settle_def split: option.split)

text \<open>
  C3, as the claim states it, fails. The page tracks order Y, whose raw status is
  NEW; a successful response that carries order X and the status DONE is applied all
  the same, and turns the tracked order's details into completed and DONE.
\<close>

theorem foreign_response_counterexample:
  "ao_id done_X \<noteq> orderId page_Y
   \<and> orderDetails
        (checkOrderStatus_response
           (InvokeData \<lparr>sr_code = 0, sr_data = Some done_X, sr_msg = None\<rparr>) InsertOk page_Y)
       = Some (completed_details order_Y)
   \<and> orderDetails page_Y = Some order_Y
   \<and> completed_details order_Y \<noteq> order_Y"
  by (simp add: checkOrderStatus_response_def save_keeps_orderDetails page_Y_fields done_X_def)
     (simp add: completed_details_def with_status_def order_Y_def)

text \<open>
  C3, amended. The success handler never looks at the order id of the payload. A
  successful response (code 0 with data) whose status is not DONE leaves the whole
  page state, and so the status snapshot, unchanged, whichever order it is for; one
  whose status is DONE replaces the snapshot by the original details of the tracked
  order marked completed and DONE, again whichever order it is for.
\<close>

theorem response_applied_whatever_its_order:
  assumes "sr_code r = 0" and "sr_data r = Some d"
  shows "(ao_status d \<noteq> Some ''DONE'' \<longrightarrow>
            checkOrderStatus_response (InvokeData r) outcome st = st)
       \<and> (ao_status d = Some ''DONE'' \<longrightarrow>
            orderDetails (checkOrderStatus_response (InvokeData r) outcome st) =
              (case originalOrderDetails st of
                 None \<Rightarrow> orderDetails st
               | Some orig \<Rightarrow> Some (completed_details orig)))"
  using assms
  by (simp add: checkOrderStatus_response_def save_keeps_orderDetails split: option.split)

theorem response_applied_whatever_its_order_witness:
  "checkOrderStatus_response
     (InvokeData \<lparr>sr_code = 0, sr_data = Some \<lparr>ao_id = Some ''X'', ao_status = Some ''PENDING''\<rparr>,
                   sr_msg = None\<rparr>) InsertOk page_Y = page_Y
   \<and> orderDetails
        (checkOrderStatus_response
           (InvokeData \<lparr>sr_code = 0, sr_data = Some done_X, sr_msg = None\<rparr>) InsertOk page_Y)
       = Some (completed_details order_Y)"
proof -
  have a: "sr_code \<lparr>sr_code = 0, sr_data = Some x, sr_msg = None\<rparr> = 0"
    and b: "sr_data \<lparr>sr_code = 0, sr_data = Some x, sr_msg = None\<rparr> = Some x" for x
    by simp_all
  show ?thesis
    using response_applied_whatever_its_order [OF a b, of "\<lparr>ao_id = Some ''X'', ao_status = Some ''PENDING''\<rparr>" InsertOk page_Y]
      response_applied_whatever_its_order [OF a b, of done_X InsertOk page_Y]
    by (simp add: page_Y_fields done_X_def)
qed



subsection \<open>The quote countdown\<close>

lemma padded_two: "n < 100 \<Longrightarrow> length (padStart2 (decimal n)) = 2"
  by (cases "n < 10") (simp_all add: padStart2_def)

lemma clear_countdown_fields:
  "timeRemainingTimerRef (clear_countdown s) = None"
  "quoteExpiryTimeRef (clear_countdown s) = quoteExpiryTimeRef s"
  "next_timer (clear_countdown s) = next_timer s"
  "timeRemaining (clear_countdown s) = timeRemaining s"
  "intervals (clear_countdown s) =
     (case timeRemainingTimerRef s of None \<Rightarrow> intervals s | Some h \<Rightarrow> removeAll h (intervals s))"
  by (simp_all add: clear_countdown_def split: option.split)

lemma updateTimer_running:
  assumes "quoteExpiryTimeRef s = Some e" and "e \<noteq> 0" and "now < e"
  shows "updateTimer now s = s\<lparr>timeRemaining := Some (format_remaining (e - now))\<rparr>"
  using assms by (simp add: updateTimer_def Let_def max_def)

lemma updateTimer_expired:
  assumes "quoteExpiryTimeRef s = Some e" and "e \<noteq> 0" and "e \<le> now"
  shows "updateTimer now s = clear_countdown (s\<lparr>timeRemaining := None\<rparr>)"
  using assms by (simp add: updateTimer_def Let_def max_def)

lemma updateTimer_keeps:
  "quoteExpiryTimeRef (updateTimer now s) = quoteExpiryTimeRef s"
  "next_timer (updateTimer now s) = next_timer s"
  by (simp_all add: updateTimer_def Let_def clear_countdown_fields split: option.split)

lemma updateTimer_intervals_unset:
  "timeRemainingTimerRef s = None \<Longrightarrow> intervals (updateTimer now s) = intervals s"
  by (simp add: updateTimer_def Let_def clear_countdown_def split: option.split)

lemma countdown_effect_started:
  assumes "estimatedReceiveAmount s0 \<noteq> []" and "\<not> isCalculating s0"
  shows "quoteExpiryTimeRef (countdown_effect t0 t1 s0) = Some (t0 + QUOTE_VALIDITY_MS)"
    and "timeRemainingTimerRef (countdown_effect t0 t1 s0) = Some (next_timer s0)"
    and "intervals (countdown_effect t0 t1 s0) =
           (case timeRemainingTimerRef s0 of None \<Rightarrow> intervals s0 | Some h \<Rightarrow> removeAll h (intervals s0))
           @ [next_timer s0]"
  using assms
  by (simp_all add: countdown_effect_def Let_def updateTimer_keeps clear_countdown_fields
        updateTimer_intervals_unset)

text \<open>
  C6. A quote exists (an estimate is present and no calculation is running) and its
  countdown is started at time \<open>t0\<close>; \<open>s\<close> is any later state of that countdown.
  A tick at time \<open>t\<close> has \<open>max 0 (120000 - (t - t0))\<close> milliseconds remaining. While
  that is positive the tick displays the whole seconds, a dot, and the hundredths of
  a second in exactly two digits, and leaves the timer running. When it is 0 the tick
  clears the displayed value, cancels the countdown's own interval and empties the
  ref. Starting the countdown cancels the interval of any prior countdown and puts a
  new interval in the ref. (The code reads an expiry time of 0 as no expiry, hence
  the third assumption.)
\<close>

theorem countdown_remaining:
  assumes "estimatedReceiveAmount s0 \<noteq> []" and "\<not> isCalculating s0"
      and "t0 + QUOTE_VALIDITY_MS \<noteq> 0"
      and "quoteExpiryTimeRef s = quoteExpiryTimeRef (countdown_effect t0 t1 s0)"
  shows "timeRemaining (updateTimer t s) =
           (if max 0 (120000 - (t - t0)) = 0 then None
            else Some (decimal (nat (max 0 (120000 - (t - t0)) div 1000)) @ ''.'' @
                       padStart2 (decimal (nat (max 0 (120000 - (t - t0)) mod 1000 div 10)))))
       \<and> length (padStart2 (decimal (nat (max 0 (120000 - (t - t0)) mod 1000 div 10)))) = 2
       \<and> (max 0 (120000 - (t - t0)) = 0 \<longrightarrow>
            timeRemainingTimerRef (updateTimer t s) = None
            \<and> (\<forall>h. timeRemainingTimerRef s = Some h \<longrightarrow> h \<notin> set (intervals (updateTimer t s))))
       \<and> (max 0 (120000 - (t - t0)) \<noteq> 0 \<longrightarrow>
            timeRemainingTimerRef (updateTimer t s) = timeRemainingTimerRef s
            \<and> intervals (updateTimer t s) = intervals s)
       \<and> (\<forall>h. timeRemainingTimerRef s0 = Some h \<and> h \<noteq> next_timer s0 \<longrightarrow>
            h \<notin> set (intervals (countdown_effect t0 t1 s0)))
       \<and> timeRemainingTimerRef (countdown_effect t0 t1 s0) = Some (next_timer s0)
       \<and> next_timer s0 \<in> set (intervals (countdown_effect t0 t1 s0))"
proof -
  have e: "quoteExpiryTimeRef s = Some (t0 + QUOTE_VALIDITY_MS)"
    using assms(1,2,4) by (simp add: countdown_effect_started)
  have two: "length (padStart2 (decimal (nat (max 0 (120000 - (t - t0)) mod 1000 div 10)))) = 2"
    by (rule padded_two) simp
  have started: "(\<forall>h. timeRemainingTimerRef s0 = Some h \<and> h \<noteq> next_timer s0 \<longrightarrow>
            h \<notin> set (intervals (countdown_effect t0 t1 s0)))
       \<and> timeRemainingTimerRef (countdown_effect t0 t1 s0) = Some (next_timer s0)
       \<and> next_timer s0 \<in> set (intervals (countdown_effect t0 t1 s0))"
    using assms(1,2) by (simp add: countdown_effect_started)
  show ?thesis
  proof (cases "t < t0 + QUOTE_VALIDITY_MS")
    case True
    then have rem: "max 0 (120000 - (t - t0)) = t0 + QUOTE_VALIDITY_MS - t"
      and pos: "max 0 (120000 - (t - t0)) \<noteq> 0"
      by (simp_all add: QUOTE_VALIDITY_MS_def)
    have "updateTimer t s = s\<lparr>timeRemaining := Some (format_remaining (t0 + QUOTE_VALIDITY_MS - t))\<rparr>"
      using e assms(3) True by (rule updateTimer_running)
    then show ?thesis
      using two started pos by (simp add: rem format_remaining_def)
  next
    case False
    then have rem: "max 0 (120000 - (t - t0)) = 0"
      by (simp add: QUOTE_VALIDITY_MS_def)
    from False have le: "t0 + QUOTE_VALIDITY_MS \<le> t"
      by simp
    have "updateTimer t s = clear_countdown (s\<lparr>timeRemaining := None\<rparr>)"
      using e assms(3) le by (rule updateTimer_expired)
    then show ?thesis
      using two started by (simp add: rem clear_countdown_fields)
  qed
qed


lemma form_fields:
  "estimatedReceiveAmount form = ''0.0004''"
  "\<not> isCalculating form"
  "timeRemainingTimerRef form = Some 3"
  "next_timer form = 4"
  "intervals form = [3]"
  "calls form = []"
  "lastPriceData form = Some quote_10_100"
  "amount form = ''11''"
  "fromCurrency form = ''USDT''"
  "toCurrency form = ''BTC''"
  "destinationAddress form = ''addr1''"
  "orderType form = Fixed"
  by (simp_all add: form_def)

theorem countdown_remaining_witness:
  "timeRemaining (updateTimer 46678 (countdown_effect 1000 1000 form)) = Some ''74.32''
   \<and> timeRemaining (updateTimer 121000 (countdown_effect 1000 1000 form)) = None
   \<and> timeRemainingTimerRef (updateTimer 121000 (countdown_effect 1000 1000 form)) = None
   \<and> 4 \<notin> set (intervals (updateTimer 121000 (countdown_effect 1000 1000 form)))
   \<and> 3 \<notin> set (intervals (countdown_effect 1000 1000 form))
   \<and> timeRemainingTimerRef (countdown_effect 1000 1000 form) = Some 4"
proof -
  have a: "estimatedReceiveAmount form \<noteq> []" and b: "\<not> isCalculating form"
    by (simp_all add: form_fields)
  have c: "(1000::int) + QUOTE_VALIDITY_MS \<noteq> 0"
    by (simp add: QUOTE_VALIDITY_MS_def)
  have d: "quoteExpiryTimeRef (countdown_effect 1000 1000 form)
             = quoteExpiryTimeRef (countdown_effect 1000 1000 form)"
    by simp
  show ?thesis
    using countdown_remaining [OF a b c d, of 46678] countdown_remaining [OF a b c d, of 121000]
    by (simp add: form_fields padStart2_def digit_def)
qed

subsection \<open>The amount validator\<close>

lemma validateAmount_skipped:
  "lastPriceData c = None \<or> amount c = [] \<or> pf (amount c) = NaN \<Longrightarrow> validateAmount pf c = (None, True)"
  by (auto simp: validateAmount_def split: option.split)

text \<open>
  C4, amended. The validation is skipped, with no error, whenever there is no quote or
  the amount is empty or parses to NaN. Otherwise it reports the minimum error
  exactly when the amount is below the quote's minimum; the maximum error exactly when
  the amount is not below the minimum and is above the maximum; and no error exactly
  when the amount is neither below the minimum nor above the maximum.
\<close>

theorem validateAmount_verdict:
  "(lastPriceData c = None \<or> amount c = [] \<or> pf (amount c) = NaN \<longrightarrow>
      validateAmount pf c = (None, True))
   \<and> (lastPriceData c = Some q \<and> amount c \<noteq> [] \<and> pf (amount c) \<noteq> NaN \<longrightarrow>
        (validateAmount pf c = (Some (MinimumAmountIs (pf (pr_from_min q)) (fromCurrency c)), False)
           \<longleftrightarrow> num_less (pf (amount c)) (pf (pr_from_min q)))
      \<and> (validateAmount pf c = (Some (MaximumAmountIs (pf (pr_from_max q)) (fromCurrency c)), False)
           \<longleftrightarrow> \<not> num_less (pf (amount c)) (pf (pr_from_min q))
               \<and> num_less (pf (pr_from_max q)) (pf (amount c)))
      \<and> (validateAmount pf c = (None, True)
           \<longleftrightarrow> \<not> num_less (pf (amount c)) (pf (pr_from_min q))
               \<and> \<not> num_less (pf (pr_from_max q)) (pf (amount c))))"
  by (auto simp: validateAmount_def split: option.split)

text \<open>
  C4, as the claim states it, fails. For a quote whose minimum is 10 and whose maximum
  is 5, the amount 7 is above the maximum, yet the verdict is the minimum error and not
  the maximum error: the minimum is checked first.
\<close>

theorem validateAmount_counterexample:
  "num_less (parse_sample (pr_from_max (quote_10_100\<lparr>pr_from_min := ''10'', pr_from_max := ''5''\<rparr>)))
            (parse_sample ''7'')
   \<and> validateAmount parse_sample
        (form\<lparr>amount := ''7'',
              lastPriceData := Some (quote_10_100\<lparr>pr_from_min := ''10'', pr_from_max := ''5''\<rparr>)\<rparr>)
       = (Some (MinimumAmountIs (Fin 10) ''USDT''), False)"
  by (simp add: validateAmount_def parse_sample_def form_def)

theorem validateAmount_verdict_witness:
  "validateAmount parse_sample (form\<lparr>amount := ''abc''\<rparr>) = (None, True)
   \<and> validateAmount parse_sample (form\<lparr>amount := ''7''\<rparr>) = (Some (MinimumAmountIs (Fin 10) ''USDT''), False)
   \<and> validateAmount parse_sample (form\<lparr>amount := ''500''\<rparr>) = (Some (MaximumAmountIs (Fin 100) ''USDT''), False)
   \<and> validateAmount parse_sample (form\<lparr>amount := ''11''\<rparr>) = (None, True)"
  using validateAmount_verdict [of "form\<lparr>amount := ''abc''\<rparr>" parse_sample quote_10_100]
    validateAmount_verdict [of "form\<lparr>amount := ''7''\<rparr>" parse_sample quote_10_100]
    validateAmount_verdict [of "form\<lparr>amount := ''11''\<rparr>" parse_sample quote_10_100]
    validateAmount_verdict [of "form\<lparr>amount := ''500''\<rparr>" parse_sample quote_10_100]
  by (simp add: form_fields parse_sample_def quote_10_100_def)


subsection \<open>The order creator\<close>

lemma validateBridgeTransaction_calls:
  "calls (snd (validateBridgeTransaction pf c s)) = calls s"
  by (simp add: validateBridgeTransaction_def)

lemma calculateReceiveAmount_calls:
  "fromCurrency c \<noteq> [] \<Longrightarrow> toCurrency c \<noteq> [] \<Longrightarrow> amount c \<noteq> [] \<Longrightarrow>
   \<not> num_le (pf (amount c)) (Fin 0) \<Longrightarrow>
   calls (calculateReceiveAmount pf t outcome c s) =
     calls s @ [CalculatePrice (fromCurrency c) (toCurrency c) (amount c) (orderType c)]"
  by (simp add: calculateReceiveAmount_def Let_def split: price_outcome.split option.split)

lemma validateBridgeTransaction_passes:
  "fst (validateBridgeTransaction pf c s) = None \<longleftrightarrow>
     fromCurrency c \<noteq> [] \<and> toCurrency c \<noteq> [] \<and> amount c \<noteq> []
     \<and> \<not> num_le (pf (amount c)) (Fin 0) \<and> destinationAddress c \<noteq> []
     \<and> snd (validateAmount pf c)"
  by (simp add: validateBridgeTransaction_def)

text \<open>
  C5, as the claim states it, fails. A submission with no quote and no destination
  address fails with the destination-address error, and neither a recalculation nor
  any other call is made: the input checks run before the rate check.
\<close>

theorem stale_rate_counterexample:
  "rate_stale 5000000 (form\<lparr>destinationAddress := [], lastPriceData := None\<rparr>)
   \<and> createBridgeTransaction parse_sample 5000000 5000001 (PriceReturns (Some quote_10_100))
        (OrderReturns None) (form\<lparr>destinationAddress := [], lastPriceData := None\<rparr>)
       = (Code500 DestinationAddressRequired, form\<lparr>destinationAddress := [], lastPriceData := None\<rparr>)
   \<and> calls (form\<lparr>destinationAddress := [], lastPriceData := None\<rparr>) = []"
  by (simp add: createBridgeTransaction_def validateBridgeTransaction_def rate_stale_def
        form_def parse_sample_def num_le_def)

text \<open>
  C5, amended. Let the quote be missing or expired at submission time. If the
  submission passes the checks that come first (both currencies, a positive amount, a
  destination address, the amount validator), it fails with the expired-rate error and
  the only call made is one fresh price calculation. If it fails one of those checks,
  it fails with that check's error and makes no call at all. In either case
  \<open>createOrder\<close> is not called.
\<close>

theorem stale_rate_is_not_submitted:
  assumes "rate_stale now_ms c"
  shows "(fst (validateBridgeTransaction pf c c) = None \<longrightarrow>
            fst (createBridgeTransaction pf now_ms later_ms price order c) = Code500 ExchangeRateExpired
            \<and> calls (snd (createBridgeTransaction pf now_ms later_ms price order c)) =
                calls c @ [CalculatePrice (fromCurrency c) (toCurrency c) (amount c) (orderType c)])
       \<and> (\<forall>e. fst (validateBridgeTransaction pf c c) = Some e \<longrightarrow>
            fst (createBridgeTransaction pf now_ms later_ms price order c) = Code500 e
            \<and> calls (snd (createBridgeTransaction pf now_ms later_ms price order c)) = calls c)"
proof (cases "validateBridgeTransaction pf c c")
  case (Pair e s)
  have s: "calls s = calls c"
    using validateBridgeTransaction_calls [of pf c c] Pair by simp
  show ?thesis
  proof (cases e)
    case None
    then have ok: "fromCurrency c \<noteq> []" "toCurrency c \<noteq> []" "amount c \<noteq> []"
      "\<not> num_le (pf (amount c)) (Fin 0)"
      using validateBridgeTransaction_passes [of pf c c] Pair by simp_all
    show ?thesis
      using assms Pair None s
      by (simp add: createBridgeTransaction_def calculateReceiveAmount_calls ok)
  next
    case (Some f)
    then show ?thesis
      using Pair s by (simp add: createBridgeTransaction_def)
  qed
qed

theorem stale_rate_is_not_submitted_witness:
  "fst (createBridgeTransaction parse_sample 5000000 5000001 (PriceReturns (Some quote_10_100))
          (OrderReturns None) form) = Code500 ExchangeRateExpired
   \<and> calls (snd (createBridgeTransaction parse_sample 5000000 5000001 (PriceReturns (Some quote_10_100))
          (OrderReturns None) form)) = [CalculatePrice ''USDT'' ''BTC'' ''11'' Fixed]
   \<and> fst (createBridgeTransaction parse_sample 5000000 5000001 (PriceReturns (Some quote_10_100))
          (OrderReturns None) (form\<lparr>destinationAddress := [], lastPriceData := None\<rparr>))
       = Code500 DestinationAddressRequired"
proof -
  have a: "rate_stale 5000000 form"
    by (simp add: rate_stale_def form_def quote_10_100_def)
  have a': "rate_stale 5000000 (form\<lparr>destinationAddress := [], lastPriceData := None\<rparr>)"
    by (simp add: rate_stale_def)
  have b: "validateBridgeTransaction parse_sample form form = (None, form)"
    by (simp add: validateBridgeTransaction_def validateAmount_def form_def parse_sample_def
          num_le_def quote_10_100_def)
  have b': "fst (validateBridgeTransaction parse_sample
                   (form\<lparr>destinationAddress := [], lastPriceData := None\<rparr>)
                   (form\<lparr>destinationAddress := [], lastPriceData := None\<rparr>))
              = Some DestinationAddressRequired"
    by (simp add: validateBridgeTransaction_def form_def parse_sample_def num_le_def)
  show ?thesis
    using stale_rate_is_not_submitted [OF a, of parse_sample 5000001 "PriceReturns (Some quote_10_100)" "OrderReturns None"]
      stale_rate_is_not_submitted [OF a', of parse_sample 5000001 "PriceReturns (Some quote_10_100)" "OrderReturns None"]
    by (simp add: b b' form_fields)
qed


subsection \<open>The expired-order reconciler\<close>





lemma effect_same_order:
  assumes "initialOrderDetails p = Some d" and "hasCheckedExpiredOrderRef st = Some (od_orderId d)"
  shows "expired_order_effect p st = (st, None)"
  using assms by (simp add: expired_order_effect_def)






text \<open>
  When the expired order is observed by a render that returned early because it was
  loading, a record that the check finds is not applied, and the checking flag stays
  set until the timer fires.
\<close>

lemma override_lost_without_handler:
  assumes "expired_order_effect p st = (st1, Some pc)" and "r_loading st"
  shows "db_check_settled pc (DbRow raw) st1 = st1" and "checkingDbForExpiredOrder st1"
  using assms
  by (auto simp: expired_order_effect_def db_check_settled_def reaches_handlers_def Let_def
        split: option.splits if_splits)

end
